theory Spec2Isabelle
  imports Complex_Main
begin

section \<open>Data model of \<open>medrops::GPModel\<close> and \<open>blackdrops::MIModel\<close>\<close>

text \<open>
  An \<open>Eigen::VectorXd\<close> is a list of scalars. The scalar type \<open>double\<close> is read as
  \<open>real\<close>: \<open>abs\<close> and \<open>max\<close> are exact on finite doubles, sums and quotients are the
  exact ones (rounding, infinities and NaN are outside this model).
  An \<open>Eigen::MatrixXd\<close> is its list of rows together with its column count, so that a
  matrix with no row still has a width.
\<close>

type_synonym vec = "real list"

record matrix =
  mrows :: "vec list"
  mcols :: nat

text \<open>One observed transition: \<open>std::tuple\<close> of state, action and target.\<close>

type_synonym transition = "vec \<times> vec \<times> vec"

text \<open>
  The source raises no exception of its own. What can stop a call is:
  \<^item> \<open>operator[]\<close> past the end of a \<open>std::vector\<close> (undefined behaviour),
  \<^item> an assertion of Eigen (sizes that differ in an assignment, a block or a coefficient
    outside the matrix, the reduction of an empty vector), as Eigen checks them when its
    assertions are compiled in,
  \<^item> an exception thrown by the regressor while it fits dimension \<open>i\<close>.
  Each of them is a value here, returned with the members as they are at that moment.
\<close>

datatype failure = StdVectorOutOfRange | EigenAssertion | FitFailure nat

text \<open>The template parameter \<open>Params\<close>; \<open>medrops_gp\<close> is the macro \<open>MEDROPS_GP\<close>.\<close>

record params =
  model_pred_dim :: nat
  model_input_dim :: nat
  action_dim :: nat
  noise :: real
  medrops_gp :: bool

text \<open>
  The template parameter \<open>GP\<close>, an opaque regressor: its constructor, \<open>compute\<close> (with
  the noise vector when \<open>MEDROPS_GP\<close> is not defined), \<open>optimize_hyperparams\<close>, \<open>query\<close>,
  \<open>samples\<close> and \<open>kernel_function().h_params()\<close>. \<open>None\<close> is a thrown exception.
\<close>

record 'g gp_ops =
  gp_new :: "nat \<Rightarrow> nat \<Rightarrow> 'g"
  gp_compute :: "'g \<Rightarrow> vec list \<Rightarrow> vec list \<Rightarrow> vec option \<Rightarrow> bool \<Rightarrow> 'g option"
  gp_optimize_hyperparams :: "'g \<Rightarrow> 'g option"
  gp_query :: "'g \<Rightarrow> vec \<Rightarrow> vec \<times> real"
  gp_samples :: "'g \<Rightarrow> vec list"
  gp_h_params :: "'g \<Rightarrow> vec"

text \<open>
  The helpers \<open>Eigen::colwise_sig\<close> and \<open>Eigen::percentile\<close> are declared outside the
  file and are parameters of the model.
\<close>

record utils =
  colwise_sig :: "matrix \<Rightarrow> vec"
  percentile :: "matrix \<Rightarrow> int \<Rightarrow> vec"

text \<open>
  The members of \<open>GPModel\<close>, and the file \<open>medrops_data.bin\<close> that \<open>learn\<close> writes
  (\<open>None\<close> as long as the model has not written it).
\<close>

record 'g gp_model =
  m_gp_models :: "'g list"
  m_initialized :: bool
  m_observations :: matrix
  m_means :: vec
  m_sigmas :: vec
  m_limits :: vec
  medrops_data_bin :: "matrix option"

section \<open>\<open>GPModel::init\<close> and the constructor\<close>

definition init :: "params \<Rightarrow> 'g gp_ops \<Rightarrow> 'g gp_model \<Rightarrow> 'g gp_model" where
  "init P G s =
     s\<lparr>m_gp_models := map (\<lambda>i. gp_new G (model_input_dim P) 1) [0..<model_pred_dim P]\<rparr>"

definition GPModel :: "params \<Rightarrow> 'g gp_ops \<Rightarrow> 'g gp_model" where
  "GPModel P G =
     init P G \<lparr>m_gp_models = [], m_initialized = False,
               m_observations = \<lparr>mrows = [], mcols = 0\<rparr>,
               m_means = [], m_sigmas = [], m_limits = [], medrops_data_bin = None\<rparr>"

section \<open>\<open>GPModel::learn\<close>\<close>

subsection \<open>The assembly loop\<close>

text \<open>
  The loop over the transitions: sample \<open>i\<close> is a vector of \<open>st.size() + act.size()\<close>
  entries whose head is the state and whose tail is the action; \<open>obs.row(i) = pred\<close>
  asserts that \<open>pred\<close> has as many entries as \<open>obs\<close> has columns.
\<close>

fun assemble_loop ::
  "nat \<Rightarrow> transition list \<Rightarrow> vec list \<Rightarrow> vec list \<Rightarrow> failure + (vec list \<times> vec list)" where
  "assemble_loop c [] samples rws = Inr (samples, rws)"
| "assemble_loop c ((st, act, pred) # rest) samples rws =
     (if length pred \<noteq> c then Inl EigenAssertion
      else assemble_loop c rest (samples @ [st @ act]) (rws @ [pred]))"

text \<open>
  \<open>obs\<close> is sized from the target of \<open>observations[0]\<close>, which does not exist when
  there is no transition.
\<close>

definition assemble :: "transition list \<Rightarrow> failure + (vec list \<times> matrix)" where
  "assemble observations =
     (case observations of
        [] \<Rightarrow> Inl StdVectorOutOfRange
      | t0 # _ \<Rightarrow>
          (case assemble_loop (length (snd (snd t0))) observations [] [] of
             Inl f \<Rightarrow> Inl f
           | Inr (samples, rws) \<Rightarrow>
               Inr (samples, \<lparr>mrows = rws, mcols = length (snd (snd t0))\<rparr>)))"

subsection \<open>\<open>_to_matrix\<close>, \<open>_to_vector\<close> and the Eigen operations that \<open>learn\<close> uses\<close>

text \<open>
  \<open>_to_matrix\<close> sizes its result from \<open>xs[0]\<close> and assigns every \<open>xs[i]\<close> to row
  \<open>i\<close>; the assignment asserts equal sizes.
\<close>

definition to_matrix :: "vec list \<Rightarrow> failure + matrix" where
  "to_matrix xs =
     (case xs of
        [] \<Rightarrow> Inl StdVectorOutOfRange
      | x0 # _ \<Rightarrow>
          if list_all (\<lambda>x. length x = length x0) xs
          then Inr \<lparr>mrows = xs, mcols = length x0\<rparr>
          else Inl EigenAssertion)"

definition to_vector :: "matrix \<Rightarrow> vec list" where
  "to_vector m = map (\<lambda>i. mrows m ! i) [0..<length (mrows m)]"

text \<open>\<open>m.col(i)\<close>, a matrix of one column.\<close>

definition mat_col :: "matrix \<Rightarrow> nat \<Rightarrow> matrix" where
  "mat_col m i = \<lparr>mrows = map (\<lambda>r. [r ! i]) (mrows m), mcols = 1\<rparr>"

text \<open>\<open>m.block(0, 0, m.rows(), k)\<close>: the first \<open>k\<close> columns, asserted to exist.\<close>

definition block_cols :: "matrix \<Rightarrow> nat \<Rightarrow> failure + matrix" where
  "block_cols m k =
     (if k \<le> mcols m then Inr \<lparr>mrows = map (take k) (mrows m), mcols = k\<rparr>
      else Inl EigenAssertion)"

text \<open>\<open>m.colwise().mean()\<close>.\<close>

definition colwise_mean :: "matrix \<Rightarrow> vec" where
  "colwise_mean m =
     map (\<lambda>j. sum_list (map (\<lambda>r. r ! j) (mrows m)) / real (length (mrows m))) [0..<mcols m]"

text \<open>\<open>m.array().abs()\<close>.\<close>

definition mat_abs :: "matrix \<Rightarrow> matrix" where
  "mat_abs m = \<lparr>mrows = map (map abs) (mrows m), mcols = mcols m\<rparr>"

text \<open>\<open>a.array().max(b.array())\<close>: coefficient-wise, asserted to have equal sizes.\<close>

definition cwise_max :: "vec \<Rightarrow> vec \<Rightarrow> failure + vec" where
  "cwise_max a b =
     (if length a = length b then Inr (map (\<lambda>(x, y). max x y) (zip a b))
      else Inl EigenAssertion)"

subsection \<open>The blocks of \<open>learn\<close> after the assembly\<close>

text \<open>
  The matrix \<open>data2\<close> written to \<open>medrops_data.bin\<close>: row \<open>i\<close> receives
  \<open>samples[i]\<close> in a block of \<open>model_input_dim + action_dim\<close> columns and
  \<open>obs.row(i)\<close> in a block of \<open>model_pred_dim\<close> columns after it; both blocks are
  asserted to lie inside \<open>data2\<close> and to have the size of what is assigned.
\<close>

definition snapshot :: "params \<Rightarrow> vec list \<Rightarrow> matrix \<Rightarrow> failure + matrix" where
  "snapshot P samples obs =
     (case samples of
        [] \<Rightarrow> Inl StdVectorOutOfRange
      | x0 # _ \<Rightarrow>
          (let k = model_input_dim P + action_dim P;
               w = length x0 + mcols obs
           in if k \<le> w \<and> list_all (\<lambda>x. length x = k) samples
                 \<and> k + model_pred_dim P \<le> w \<and> mcols obs = model_pred_dim P
              then Inr \<lparr>mrows = map (\<lambda>(x, r). x @ r) (zip samples (mrows obs)), mcols = w\<rparr>
              else Inl EigenAssertion))"

text \<open>The noise vector exists only when \<open>MEDROPS_GP\<close> is not defined.\<close>

definition noises :: "params \<Rightarrow> vec list \<Rightarrow> vec option" where
  "noises P samples =
     (if medrops_gp P then None else Some (replicate (length samples) (noise P)))"

text \<open>
  The fan-out \<open>tbb::parallel_for\<close> over the columns of \<open>obs\<close>. Task \<open>i\<close> touches
  regressor \<open>i\<close> only, so the tasks are run here in the order of their indices; an
  exception of task \<open>i\<close> ends the loop with the regressors as they are then.
\<close>

fun fit_loop ::
  "params \<Rightarrow> 'g gp_ops \<Rightarrow> vec list \<Rightarrow> matrix \<Rightarrow> nat list \<Rightarrow> 'g list
     \<Rightarrow> (failure \<times> 'g list) + 'g list" where
  "fit_loop P G samples obs [] gps = Inr gps"
| "fit_loop P G samples obs (i # rest) gps =
     (if length gps \<le> i then Inl (StdVectorOutOfRange, gps)
      else
        (case gp_compute G (gps ! i) samples (to_vector (mat_col obs i)) (noises P samples) False of
           None \<Rightarrow> Inl (FitFailure i, gps)
         | Some g \<Rightarrow>
             (case gp_optimize_hyperparams G g of
                None \<Rightarrow> Inl (FitFailure i, gps[i := g])
              | Some g' \<Rightarrow> fit_loop P G samples obs rest (gps[i := g']))))"

text \<open>
  The last loop prints the hyperparameters of each kernel; \<open>p.segment(0, p.size() - 2)\<close>
  asserts that there are at least two. What is printed is not modelled.
\<close>

definition print_h_params :: "'g gp_ops \<Rightarrow> 'g list \<Rightarrow> nat \<Rightarrow> failure + unit" where
  "print_h_params G gps n =
     (if list_all (\<lambda>i. i < length gps) [0..<n]
      then (if list_all (\<lambda>i. 2 \<le> length (gp_h_params G (gps ! i))) [0..<n]
            then Inr () else Inl EigenAssertion)
      else Inl StdVectorOutOfRange)"

subsection \<open>\<open>learn\<close>\<close>

text \<open>The fitting part of \<open>learn\<close>, after the \<open>only_limits\<close> return.\<close>

definition learn_fit ::
  "params \<Rightarrow> 'g gp_ops \<Rightarrow> vec list \<Rightarrow> matrix \<Rightarrow> 'g gp_model
     \<Rightarrow> (failure \<times> 'g gp_model) + 'g gp_model" where
  "learn_fit P G samples obs s =
     (case snapshot P samples obs of
        Inl f \<Rightarrow> Inl (f, s)
      | Inr data2 \<Rightarrow>
          (let s1 = init P G (s\<lparr>medrops_data_bin := Some data2\<rparr>)
           in case fit_loop P G samples obs [0..<mcols obs] (m_gp_models s1) of
                Inl (f, gps) \<Rightarrow> Inl (f, s1\<lparr>m_gp_models := gps\<rparr>)
              | Inr gps \<Rightarrow>
                  (case print_h_params G gps (mcols obs) of
                     Inl f \<Rightarrow> Inl (f, s1\<lparr>m_gp_models := gps\<rparr>)
                   | Inr _ \<Rightarrow> Inr (s1\<lparr>m_gp_models := gps\<rparr>))))"

text \<open>
  The diagnostics block: the sample matrix, its first
  \<open>model_input_dim + action_dim\<close> columns, and the three vectors computed from them.
\<close>

definition learn_diagnostics ::
  "params \<Rightarrow> utils \<Rightarrow> vec list \<Rightarrow> 'g gp_model \<Rightarrow> (failure \<times> 'g gp_model) + 'g gp_model" where
  "learn_diagnostics P U samples s =
     (case to_matrix samples of
        Inl f \<Rightarrow> Inl (f, s)
      | Inr data \<Rightarrow>
          (case block_cols data (model_input_dim P + action_dim P) of
             Inl f \<Rightarrow> Inl (f, s)
           | Inr samp \<Rightarrow>
               (let s1 = s\<lparr>m_means := colwise_mean samp\<rparr>;
                    s2 = s1\<lparr>m_sigmas := colwise_sig U samp\<rparr>;
                    pl = percentile U (mat_abs samp) 5;
                    ph = percentile U (mat_abs samp) 95
                in case cwise_max pl ph of
                     Inl f \<Rightarrow> Inl (f, s2)
                   | Inr l \<Rightarrow> Inr (s2\<lparr>m_limits := l\<rparr>))))"

definition learn ::
  "params \<Rightarrow> 'g gp_ops \<Rightarrow> utils \<Rightarrow> transition list \<Rightarrow> bool \<Rightarrow> 'g gp_model
     \<Rightarrow> (failure \<times> 'g gp_model) + 'g gp_model" where
  "learn P G U observations only_limits s =
     (case assemble observations of
        Inl f \<Rightarrow> Inl (f, s)
      | Inr (samples, obs) \<Rightarrow>
          (case learn_diagnostics P U samples (s\<lparr>m_observations := obs\<rparr>) of
             Inl fs \<Rightarrow> Inl fs
           | Inr s' \<Rightarrow> if only_limits then Inr s' else learn_fit P G samples obs s'))"

section \<open>Queries and accessors of \<open>GPModel\<close>\<close>

text \<open>
  \<open>predictm\<close> asks every regressor; entry \<open>i\<close> of the means is coefficient 0 of the
  mean vector that regressor \<open>i\<close> returns (asserted to exist), entry \<open>i\<close> of the
  variances is its variance. The tasks of the \<open>parallel_for\<close> write different entries.
\<close>

definition predictm :: "'g gp_ops \<Rightarrow> 'g gp_model \<Rightarrow> vec \<Rightarrow> failure + (vec \<times> vec)" where
  "predictm G s x =
     (let rs = map (\<lambda>g. gp_query G g x) (m_gp_models s)
      in if list_all (\<lambda>(m, v). m \<noteq> []) rs
         then Inr (map (\<lambda>(m, v). m ! 0) rs, map (\<lambda>(m, v). v) rs)
         else Inl EigenAssertion)"

text \<open>\<open>v.mean()\<close>: the sum over the size; the reduction asserts a non-empty vector.\<close>

definition vec_mean :: "vec \<Rightarrow> failure + real" where
  "vec_mean v = (if v = [] then Inl EigenAssertion else Inr (sum_list v / real (length v)))"

definition predict :: "'g gp_ops \<Rightarrow> 'g gp_model \<Rightarrow> vec \<Rightarrow> failure + (vec \<times> real)" where
  "predict G s x =
     (case predictm G s x of
        Inl f \<Rightarrow> Inl f
      | Inr (ms, ss) \<Rightarrow>
          (case vec_mean ss of Inl f \<Rightarrow> Inl f | Inr u \<Rightarrow> Inr (ms, u)))"

text \<open>
  \<open>save_data\<close>: the text it sends to the stream, given how the stream prints a
  \<open>double\<close> (\<open>fmt\<close>). Line \<open>i\<close> reads \<open>samples[i](j)\<close> for every \<open>j\<close> below the size
  of \<open>samples[0]\<close> and \<open>observations(i, j)\<close> for every column \<open>j\<close>; both reads assert
  that the coefficient exists.
\<close>

definition save_row :: "(real \<Rightarrow> string) \<Rightarrow> vec list \<Rightarrow> matrix \<Rightarrow> nat \<Rightarrow> failure + string" where
  "save_row fmt samples obs i =
     (if length (samples ! i) < length (samples ! 0)
         \<or> (0 < mcols obs \<and> length (mrows obs) \<le> i)
      then Inl EigenAssertion
      else Inr ((if i \<noteq> 0 then [CHR 0x0A] else [])
                @ concat (map (\<lambda>j. fmt (samples ! i ! j) @ '' '') [0..<length (samples ! 0)])
                @ concat (map (\<lambda>j. (if j \<noteq> 0 then '' '' else []) @ fmt (mrows obs ! i ! j))
                            [0..<mcols obs])))"

fun save_loop ::
  "(real \<Rightarrow> string) \<Rightarrow> vec list \<Rightarrow> matrix \<Rightarrow> nat list \<Rightarrow> string \<Rightarrow> failure + string" where
  "save_loop fmt samples obs [] out = Inr out"
| "save_loop fmt samples obs (i # rest) out =
     (case save_row fmt samples obs i of
        Inl f \<Rightarrow> Inl f
      | Inr l \<Rightarrow> save_loop fmt samples obs rest (out @ l))"

text \<open>The samples are those of \<open>_gp_models[0]\<close>; \<open>Inr\<close> holds the content of the file.\<close>

definition save_data :: "'g gp_ops \<Rightarrow> (real \<Rightarrow> string) \<Rightarrow> 'g gp_model \<Rightarrow> failure + string" where
  "save_data G fmt s =
     (case m_gp_models s of
        [] \<Rightarrow> Inl StdVectorOutOfRange
      | g0 # _ \<Rightarrow>
          save_loop fmt (gp_samples G g0) (m_observations s)
            [0..<length (gp_samples G g0)] [])"

definition samples :: "'g gp_ops \<Rightarrow> 'g gp_model \<Rightarrow> failure + matrix" where
  "samples G s =
     (case m_gp_models s of
        [] \<Rightarrow> Inl StdVectorOutOfRange
      | g0 # _ \<Rightarrow> to_matrix (gp_samples G g0))"

definition observations :: "'g gp_model \<Rightarrow> matrix" where
  "observations s = m_observations s"

definition limits :: "'g gp_model \<Rightarrow> vec" where
  "limits s = m_limits s"

section \<open>\<open>MIModel::predict\<close>\<close>

text \<open>
  The members of \<open>MIModel\<close>; the template parameter \<open>MeanFunction\<close> is opaque and
  \<open>mean_eval\<close> is its call operator.
\<close>

record 'm mi_model =
  mi_samples :: "vec list"
  mi_observations :: "vec list"
  mi_mean :: 'm
  mi_init :: bool

definition mi_predict ::
  "('m \<Rightarrow> vec \<Rightarrow> vec \<Rightarrow> vec) \<Rightarrow> 'm mi_model \<Rightarrow> vec \<Rightarrow> bool \<Rightarrow> vec \<times> vec" where
  "mi_predict mean_eval s x b =
     (let mu = mean_eval (mi_mean s) x x;
          ss = replicate (length mu) 0
      in (mu, ss))"

section \<open>A small instance of the template parameters\<close>

text \<open>
  A regressor that remembers its training set, refuses a training set with a repeated
  input (a singular kernel matrix) and answers a query by looking the input up.
\<close>

definition table_gp :: "(vec list \<times> vec list) gp_ops" where
  "table_gp =
     \<lparr>gp_new = (\<lambda>d k. ([], [])),
      gp_compute = (\<lambda>g xs ys ns ck. if distinct xs then Some (xs, ys) else None),
      gp_optimize_hyperparams = Some,
      gp_query = (\<lambda>g x. case map_of (zip (fst g) (snd g)) x of
                           Some y \<Rightarrow> (y, 0) | None \<Rightarrow> ([0], 1)),
      gp_samples = fst,
      gp_h_params = (\<lambda>g. [0, 0])\<rparr>"

text \<open>
  A percentile that sorts each column and reads the entry at \<open>rows * p / 100\<close>; the
  deviation is left at zero.
\<close>

definition table_utils :: utils where
  "table_utils =
     \<lparr>colwise_sig = (\<lambda>m. replicate (mcols m) 0),
      percentile = (\<lambda>m p. map (\<lambda>j. sort (map (\<lambda>r. r ! j) (mrows m))
                                      ! nat ((int (length (mrows m)) * p) div 100))
                              [0..<mcols m])\<rparr>"

definition table_params :: params where
  "table_params =
     \<lparr>model_pred_dim = 1, model_input_dim = 1, action_dim = 1, noise = 0, medrops_gp = False\<rparr>"

text \<open>A printer that knows three numbers.\<close>

definition digit_fmt :: "real \<Rightarrow> string" where
  "digit_fmt r = (if r = 0 then ''0'' else if r = 1 then ''1'' else if r = 2 then ''2'' else ''?'')"

section \<open>Vocabulary of the statements\<close>

text \<open>
  The sample of a transition is its state followed by its action; the sample matrix and
  the target matrix of a sequence of transitions have one row per transition.
\<close>

definition sample_of :: "transition \<Rightarrow> vec" where
  "sample_of t = fst t @ fst (snd t)"

definition target_of :: "transition \<Rightarrow> vec" where
  "target_of t = snd (snd t)"

definition sample_matrix :: "transition list \<Rightarrow> matrix" where
  "sample_matrix ts = \<lparr>mrows = map sample_of ts, mcols = length (sample_of (hd ts))\<rparr>"

definition target_matrix :: "transition list \<Rightarrow> matrix" where
  "target_matrix ts = \<lparr>mrows = map target_of ts, mcols = length (target_of (hd ts))\<rparr>"


text \<open>
  Transitions that \<open>learn\<close> can use with the parameters \<open>P\<close>: there is at least
  one, all targets have the length of the first target, and every sample has
  \<open>model_input_dim + action_dim\<close> entries.
\<close>

definition consistent :: "params \<Rightarrow> transition list \<Rightarrow> bool" where
  "consistent P ts \<longleftrightarrow>
     ts \<noteq> []
     \<and> list_all (\<lambda>t. length (target_of t) = length (target_of (hd ts))) ts
     \<and> list_all (\<lambda>t. length (sample_of t) = model_input_dim P + action_dim P) ts"

text \<open>
  What is asked of the helper \<open>percentile\<close> at the two places where \<open>learn\<close> calls
  it: one entry per column of its argument.
\<close>

definition percentile_sized :: "utils \<Rightarrow> matrix \<Rightarrow> bool" where
  "percentile_sized U m \<longleftrightarrow>
     length (percentile U m 5) = mcols m \<and> length (percentile U m 95) = mcols m"

text \<open>
  The members after the diagnostics block of \<open>learn\<close>, for transitions whose samples
  fill the sample matrix: the cached targets, the column means, the column deviations
  and the limits are those of the new transitions.
\<close>

definition diagnosed :: "utils \<Rightarrow> transition list \<Rightarrow> 'g gp_model \<Rightarrow> 'g gp_model" where
  "diagnosed U ts s =
     s\<lparr>m_observations := target_matrix ts,
       m_means := colwise_mean (sample_matrix ts),
       m_sigmas := colwise_sig U (sample_matrix ts),
       m_limits := map (\<lambda>(x, y). max x y)
                     (zip (percentile U (mat_abs (sample_matrix ts)) 5)
                          (percentile U (mat_abs (sample_matrix ts)) 95))\<rparr>"


section \<open>Example inputs and ensembles\<close>

text \<open>Three transitions on a line: states 0, 1, 2, action 0, target equal to the state.\<close>

definition line3 :: "transition list" where
  "line3 = [([0], [0], [0]), ([1], [0], [1]), ([2], [0], [2])]"

text \<open>The ensemble that a first \<open>learn\<close> on \<open>line3\<close> leaves, with the small instance.\<close>

definition line3_fitted :: "(vec list \<times> vec list) gp_model" where
  "line3_fitted =
     \<lparr>m_gp_models = [([[0, 0], [1, 0], [2, 0]], [[0], [1], [2]])],
      m_initialized = False,
      m_observations = \<lparr>mrows = [[0], [1], [2]], mcols = 1\<rparr>,
      m_means = [1, 0], m_sigmas = [0, 0], m_limits = [2, 0],
      medrops_data_bin = Some \<lparr>mrows = [[0, 0, 0], [1, 0, 1], [2, 0, 2]], mcols = 3\<rparr>\<rparr>"




text \<open>
  Transitions whose lengths disagree: in the target, in the state, and in the state and
  the action at once.
\<close>

definition ragged_target2 :: "transition list" where
  "ragged_target2 = [([1], [3], [0]), ([1], [3], [1, 2])]"

definition ragged_state2 :: "transition list" where
  "ragged_state2 = [([1], [3], [0]), ([1, 2], [3], [1])]"

definition shifted2 :: "transition list" where
  "shifted2 = [([1, 2], [3], [0]), ([1], [2, 4], [1])]"

text \<open>The samples and targets of \<open>shifted2\<close>, cut into states and actions of equal lengths.\<close>

definition straight2 :: "transition list" where
  "straight2 = [([1, 2], [3], [0]), ([1, 2], [4], [1])]"

definition wide_params :: params where
  "wide_params =
     \<lparr>model_pred_dim = 1, model_input_dim = 2, action_dim = 1, noise = 0, medrops_gp = False\<rparr>"

text \<open>What \<open>learn\<close> on \<open>shifted2\<close> leaves of a new ensemble.\<close>

definition shifted2_fitted :: "(vec list \<times> vec list) gp_model" where
  "shifted2_fitted =
     \<lparr>m_gp_models = [([[1, 2, 3], [1, 2, 4]], [[0], [1]])],
      m_initialized = False,
      m_observations = \<lparr>mrows = [[0], [1]], mcols = 1\<rparr>,
      m_means = [1, 2, 7 / 2], m_sigmas = [0, 0, 0], m_limits = [1, 2, 4],
      medrops_data_bin = Some \<lparr>mrows = [[1, 2, 3, 0], [1, 2, 4, 1]], mcols = 4\<rparr>\<rparr>"

text \<open>Three transitions with negative entries in the states and the actions.\<close>

definition signed3 :: "transition list" where
  "signed3 = [([-5], [1], [2]), ([1], [-2], [1]), ([1], [-5], [0])]"

text \<open>What \<open>learn\<close> with \<open>only_limits\<close> on \<open>signed3\<close> leaves of \<open>line3_fitted\<close>.\<close>

definition signed3_limited :: "(vec list \<times> vec list) gp_model" where
  "signed3_limited =
     \<lparr>m_gp_models = [([[0, 0], [1, 0], [2, 0]], [[0], [1], [2]])],
      m_initialized = False,
      m_observations = \<lparr>mrows = [[2], [1], [0]], mcols = 1\<rparr>,
      m_means = [-1, -2], m_sigmas = [0, 0], m_limits = [5, 5],
      medrops_data_bin = Some \<lparr>mrows = [[0, 0, 0], [1, 0, 1], [2, 0, 2]], mcols = 3\<rparr>\<rparr>"

text \<open>Fewer transitions than \<open>line3\<close> has, and what an \<open>only_limits\<close> call on them leaves.\<close>

definition short2 :: "transition list" where
  "short2 = [([5], [5], [2]), ([6], [5], [1])]"




text \<open>
  A regressor like \<open>table_gp\<close> that also refuses a negative target, two output
  dimensions, and one transition whose second target is negative: the fit of dimension
  0 is done when that of dimension 1 fails.
\<close>

definition picky_gp :: "(vec list \<times> vec list) gp_ops" where
  "picky_gp =
     table_gp\<lparr>gp_compute :=
       (\<lambda>g xs ys ns ck. if distinct xs \<and> list_all (\<lambda>y. 0 \<le> y ! 0) ys then Some (xs, ys) else None)\<rparr>"

definition two_params :: params where
  "two_params =
     \<lparr>model_pred_dim = 2, model_input_dim = 1, action_dim = 1, noise = 0, medrops_gp = False\<rparr>"

definition half1 :: "transition list" where
  "half1 = [([1], [0], [1, -1])]"

definition half1_failed :: "(vec list \<times> vec list) gp_model" where
  "half1_failed =
     \<lparr>m_gp_models = [([[1, 0]], [[1]]), ([], [])],
      m_initialized = False,
      m_observations = \<lparr>mrows = [[1, -1]], mcols = 2\<rparr>,
      m_means = [1, 0], m_sigmas = [0, 0], m_limits = [1, 0],
      medrops_data_bin = Some \<lparr>mrows = [[1, 0, 1, -1]], mcols = 4\<rparr>\<rparr>"

section \<open>Properties\<close>

subsection \<open>The assembly\<close>

lemma assemble_loop_ok:
  "\<forall>t \<in> set ts. length (target_of t) = c \<Longrightarrow>
   assemble_loop c ts acc rws = Inr (acc @ map sample_of ts, rws @ map target_of ts)"
  by (induction c ts acc rws rule: assemble_loop.induct)
     (auto simp: sample_of_def target_of_def)

lemma assemble_loop_fail:
  "\<exists>t \<in> set ts. length (target_of t) \<noteq> c \<Longrightarrow> assemble_loop c ts acc rws = Inl EigenAssertion"
  by (induction c ts acc rws rule: assemble_loop.induct) (auto simp: target_of_def)

lemma assemble_ok:
  assumes "ts \<noteq> []" and "\<forall>t \<in> set ts. length (target_of t) = length (target_of (hd ts))"
  shows "assemble ts = Inr (map sample_of ts, target_matrix ts)"
proof (cases ts)
  case Nil
  with assms(1) show ?thesis by simp
next
  case (Cons t0 rest)
  have "assemble_loop (length (target_of (hd ts))) ts [] [] = Inr ([] @ map sample_of ts, [] @ map target_of ts)"
    by (rule assemble_loop_ok [OF assms(2)])
  then have "assemble_loop (length (snd (snd t0))) (t0 # rest) [] [] = Inr (map sample_of (t0 # rest), map target_of (t0 # rest))"
    unfolding Cons by (simp add: target_of_def)
  then show ?thesis
    unfolding Cons assemble_def target_matrix_def by (simp add: target_of_def)
qed

lemma assemble_fail:
  assumes "ts \<noteq> []" and "\<exists>t \<in> set ts. length (target_of t) \<noteq> length (target_of (hd ts))"
  shows "assemble ts = Inl EigenAssertion"
proof (cases ts)
  case Nil
  with assms(1) show ?thesis by simp
next
  case (Cons t0 rest)
  have "assemble_loop (length (target_of (hd ts))) ts [] [] = Inl EigenAssertion"
    by (rule assemble_loop_fail [OF assms(2)])
  then have "assemble_loop (length (snd (snd t0))) (t0 # rest) [] [] = Inl EigenAssertion"
    unfolding Cons by (simp add: target_of_def)
  then show ?thesis
    unfolding Cons assemble_def by simp
qed

text \<open>
  C1. For a non-empty sequence of transitions whose targets all have the length of the
  first target, the assembly of \<open>learn\<close> succeeds; it yields as many samples and as
  many target rows as there are transitions, sample \<open>i\<close> is the state of transition
  \<open>i\<close> followed by its action, and row \<open>i\<close> of the target matrix is its target.
\<close>

theorem assemble_samples_targets:
  assumes "ts \<noteq> []"
      and "\<forall>t \<in> set ts. length (target_of t) = length (target_of (hd ts))"
  shows "\<exists>smp obs. assemble ts = Inr (smp, obs)
           \<and> length smp = length ts \<and> length (mrows obs) = length ts
           \<and> mcols obs = length (target_of (hd ts))
           \<and> (\<forall>i < length ts. smp ! i = fst (ts ! i) @ fst (snd (ts ! i))
                               \<and> mrows obs ! i = snd (snd (ts ! i)))"
  unfolding assemble_ok [OF assms]
  by (simp add: target_matrix_def sample_of_def target_of_def)

theorem assemble_samples_targets_witness:
  "\<exists>smp obs. assemble line3 = Inr (smp, obs)
           \<and> length smp = length line3 \<and> length (mrows obs) = length line3
           \<and> mcols obs = length (target_of (hd line3))
           \<and> (\<forall>i < length line3. smp ! i = fst (line3 ! i) @ fst (snd (line3 ! i))
                                  \<and> mrows obs ! i = snd (snd (line3 ! i)))"
proof -
  have h1: "line3 \<noteq> []"
    by (simp add: line3_def)
  have h2: "\<forall>t \<in> set line3. length (target_of t) = length (target_of (hd line3))"
    by (simp add: line3_def target_of_def)
  show ?thesis by (rule assemble_samples_targets [OF h1 h2])
qed

lemma to_matrix_ok:
  assumes "xs \<noteq> []" and "\<forall>x \<in> set xs. length x = w"
  shows "to_matrix xs = Inr \<lparr>mrows = xs, mcols = w\<rparr>"
proof (cases xs)
  case Nil
  with assms(1) show ?thesis by simp
next
  case (Cons x0 rest)
  with assms(2) show ?thesis
    by (simp add: to_matrix_def list_all_iff)
qed

lemma to_matrix_fail:
  assumes "xs \<noteq> []" and "\<exists>x \<in> set xs. length x \<noteq> length (hd xs)"
  shows "to_matrix xs = Inl EigenAssertion"
proof (cases xs)
  case Nil
  with assms(1) show ?thesis by simp
next
  case (Cons x0 rest)
  with assms(2) show ?thesis
    by (auto simp: to_matrix_def list_all_iff)
qed

lemma block_cols_full:
  assumes "\<forall>x \<in> set xs. length x = k"
  shows "block_cols \<lparr>mrows = xs, mcols = k\<rparr> k = Inr \<lparr>mrows = xs, mcols = k\<rparr>"
proof -
  have "map (take k) xs = xs"
    using assms by (induction xs) auto
  then show ?thesis by (simp add: block_cols_def)
qed

lemma sample_matrix_consistent:
  assumes "consistent P ts"
  shows "sample_matrix ts = \<lparr>mrows = map sample_of ts, mcols = model_input_dim P + action_dim P\<rparr>"
proof -
  from assms have "ts \<noteq> []" and "\<forall>t \<in> set ts. length (sample_of t) = model_input_dim P + action_dim P"
    by (simp_all add: consistent_def list_all_iff)
  then have "length (sample_of (hd ts)) = model_input_dim P + action_dim P"
    by (cases ts) auto
  then show ?thesis by (simp add: sample_matrix_def)
qed

lemma learn_diagnostics_frame:
  assumes "learn_diagnostics P U smp s = Inl (f, s') \<or> learn_diagnostics P U smp s = Inr s'"
  shows "m_gp_models s' = m_gp_models s \<and> m_observations s' = m_observations s
         \<and> medrops_data_bin s' = medrops_data_bin s \<and> m_initialized s' = m_initialized s"
  using assms
  by (auto simp: learn_diagnostics_def Let_def split: sum.splits)

lemma learn_diagnostics_ok:
  assumes "consistent P ts" and "percentile_sized U (mat_abs (sample_matrix ts))"
  shows "learn_diagnostics P U (map sample_of ts) s =
           Inr (s\<lparr>m_means := colwise_mean (sample_matrix ts),
                  m_sigmas := colwise_sig U (sample_matrix ts),
                  m_limits := map (\<lambda>(x, y). max x y)
                                (zip (percentile U (mat_abs (sample_matrix ts)) 5)
                                     (percentile U (mat_abs (sample_matrix ts)) 95))\<rparr>)"
proof -
  let ?k = "model_input_dim P + action_dim P"
  let ?M = "\<lparr>mrows = map sample_of ts, mcols = ?k\<rparr>"
  have sm: "sample_matrix ts = ?M"
    by (rule sample_matrix_consistent [OF assms(1)])
  from assms(1) have ne: "map sample_of ts \<noteq> []"
    and len: "\<forall>x \<in> set (map sample_of ts). length x = ?k"
    by (simp_all add: consistent_def list_all_iff)
  have tm: "to_matrix (map sample_of ts) = Inr ?M"
    by (rule to_matrix_ok [OF ne len])
  have bc: "block_cols ?M ?k = Inr ?M"
    by (rule block_cols_full [OF len])
  from assms(2) have cm: "cwise_max (percentile U (mat_abs ?M) 5) (percentile U (mat_abs ?M) 95)
      = Inr (map (\<lambda>(x, y). max x y) (zip (percentile U (mat_abs ?M) 5) (percentile U (mat_abs ?M) 95)))"
    by (simp add: cwise_max_def percentile_sized_def sm)
  show ?thesis
    unfolding learn_diagnostics_def tm sm
    by (simp add: bc cm Let_def)
qed

lemma learn_fit_frame:
  assumes "learn_fit P G smp obs s = Inl (f, s') \<or> learn_fit P G smp obs s = Inr s'"
  shows "m_observations s' = m_observations s \<and> m_means s' = m_means s
         \<and> m_sigmas s' = m_sigmas s \<and> m_limits s' = m_limits s
         \<and> m_initialized s' = m_initialized s"
  using assms
  by (auto simp: learn_fit_def init_def Let_def split: sum.splits)

subsection \<open>\<open>learn\<close> on consistent transitions\<close>

lemma learn_consistent:
  assumes "consistent P ts" and "percentile_sized U (mat_abs (sample_matrix ts))"
  shows "learn P G U ts ol s =
           (if ol then Inr (diagnosed U ts s)
            else learn_fit P G (map sample_of ts) (target_matrix ts) (diagnosed U ts s))"
proof -
  from assms(1) have "ts \<noteq> []"
    and "\<forall>t \<in> set ts. length (target_of t) = length (target_of (hd ts))"
    unfolding consistent_def list_all_iff by blast+
  then have a: "assemble ts = Inr (map sample_of ts, target_matrix ts)"
    by (rule assemble_ok)
  have d: "learn_diagnostics P U (map sample_of ts) (s\<lparr>m_observations := target_matrix ts\<rparr>)
             = Inr (diagnosed U ts s)"
    unfolding learn_diagnostics_ok [OF assms] by (simp add: diagnosed_def)
  show ?thesis
    unfolding learn_def a by (simp add: d)
qed

lemma learn_only_limits_regressors:
  assumes "learn P G U ts True s = Inl (f, s') \<or> learn P G U ts True s = Inr s'"
  shows "m_gp_models s' = m_gp_models s"
proof (cases "assemble ts")
  case (Inl e)
  with assms show ?thesis by (simp add: learn_def)
next
  case (Inr r)
  obtain smp obs where r: "r = (smp, obs)" by (cases r)
  from assms Inr r
  have "learn_diagnostics P U smp (s\<lparr>m_observations := obs\<rparr>) = Inl (f, s')
        \<or> learn_diagnostics P U smp (s\<lparr>m_observations := obs\<rparr>) = Inr s'"
    by (auto simp: learn_def split: sum.splits)
  from learn_diagnostics_frame [OF this] show ?thesis by simp
qed


lemma percentile_sized_table: "percentile_sized table_utils m"
  by (simp add: percentile_sized_def table_utils_def)

lemma learn_line3:
  "learn table_params table_gp table_utils line3 False (GPModel table_params table_gp)
     = Inr line3_fitted"
  by code_simp

subsection \<open>Queries\<close>

lemma sum_list_replicate_real: "sum_list (replicate n (v::real)) = real n * v"
  by (induction n) (simp_all add: algebra_simps)

text \<open>
  C2. On an ensemble with at least one regressor, each answering the query with a
  non-empty mean vector, \<open>predictm\<close> returns the vector of the regressors' means
  (entry \<open>i\<close> is coefficient 0 of what regressor \<open>i\<close> returns) and the vector of their
  variances, and \<open>predict\<close> returns the same means with one scalar: the sum of the
  variances divided by their number, which is the mean of the variance vector of
  \<open>predictm\<close>.
\<close>

theorem predict_averages_predictm:
  assumes "m_gp_models s \<noteq> []"
      and "\<forall>g \<in> set (m_gp_models s). fst (gp_query G g x) \<noteq> []"
  shows "predictm G s x = Inr (map (\<lambda>g. fst (gp_query G g x) ! 0) (m_gp_models s),
                               map (\<lambda>g. snd (gp_query G g x)) (m_gp_models s))
         \<and> predict G s x = Inr (map (\<lambda>g. fst (gp_query G g x) ! 0) (m_gp_models s),
                                 sum_list (map (\<lambda>g. snd (gp_query G g x)) (m_gp_models s))
                                   / real (length (m_gp_models s)))
         \<and> (\<forall>ms ss. predictm G s x = Inr (ms, ss) \<longrightarrow>
               predict G s x = Inr (ms, sum_list ss / real (length ss))
               \<and> length ms = length (m_gp_models s) \<and> length ss = length (m_gp_models s))"
proof -
  have pm: "predictm G s x = Inr (map (\<lambda>g. fst (gp_query G g x) ! 0) (m_gp_models s),
                                  map (\<lambda>g. snd (gp_query G g x)) (m_gp_models s))"
    using assms(2)
    by (simp add: predictm_def Let_def list_all_iff case_prod_beta comp_def)
  have p: "predict G s x = Inr (map (\<lambda>g. fst (gp_query G g x) ! 0) (m_gp_models s),
                                 sum_list (map (\<lambda>g. snd (gp_query G g x)) (m_gp_models s))
                                   / real (length (m_gp_models s)))"
    using assms(1) by (simp add: predict_def pm vec_mean_def)
  show ?thesis
    using p by (simp add: pm)
qed

theorem predict_averages_predictm_witness:
  "m_gp_models \<lparr>m_gp_models = [([[1, 0]], [[3]]), ([[1, 0]], [[4]])], m_initialized = False,
                 m_observations = \<lparr>mrows = [[3, 4]], mcols = 2\<rparr>,
                 m_means = [], m_sigmas = [], m_limits = [], medrops_data_bin = None\<rparr> \<noteq> []
   \<and> predictm table_gp
        \<lparr>m_gp_models = [([[1, 0]], [[3]]), ([[1, 0]], [[4]])], m_initialized = False,
         m_observations = \<lparr>mrows = [[3, 4]], mcols = 2\<rparr>,
         m_means = [], m_sigmas = [], m_limits = [], medrops_data_bin = None\<rparr> [1, 0]
       = Inr ([3, 4], [0, 0])
   \<and> predict table_gp
        \<lparr>m_gp_models = [([[1, 0]], [[3]]), ([[1, 0]], [[4]])], m_initialized = False,
         m_observations = \<lparr>mrows = [[3, 4]], mcols = 2\<rparr>,
         m_means = [], m_sigmas = [], m_limits = [], medrops_data_bin = None\<rparr> [1, 0]
       = Inr ([3, 4], 0)
   \<and> predict table_gp
        \<lparr>m_gp_models = [([[1, 0]], [[3]]), ([[1, 0]], [[4]])], m_initialized = False,
         m_observations = \<lparr>mrows = [[3, 4]], mcols = 2\<rparr>,
         m_means = [], m_sigmas = [], m_limits = [], medrops_data_bin = None\<rparr> [5, 5]
       = Inr ([0, 0], 1)"
proof -
  let ?s = "\<lparr>m_gp_models = [([[1, 0]], [[3]]), ([[1::real, 0]], [[4::real]])], m_initialized = False,
             m_observations = \<lparr>mrows = [[3, 4]], mcols = 2\<rparr>,
             m_means = [], m_sigmas = [], m_limits = [], medrops_data_bin = None\<rparr>"
  have h1: "m_gp_models ?s \<noteq> []"
    by simp
  have h2: "\<forall>g \<in> set (m_gp_models ?s). fst (gp_query table_gp g x) \<noteq> []" for x
    by (simp add: table_gp_def split: option.splits)
  from predict_averages_predictm [OF h1 h2, of "[1, 0]"]
       predict_averages_predictm [OF h1 h2, of "[5, 5]"] h1
  show ?thesis
    by (simp add: table_gp_def)
qed

text \<open>
  C8. \<open>MIModel::predict\<close> returns the value of the mean function at the query and, as
  uncertainty, a vector of zeros that has the length of that value.
\<close>

theorem mi_predict_zero_uncertainty:
  "fst (mi_predict mean_eval s x b) = mean_eval (mi_mean s) x x
   \<and> snd (mi_predict mean_eval s x b) = replicate (length (mean_eval (mi_mean s) x x)) 0
   \<and> length (snd (mi_predict mean_eval s x b)) = length (fst (mi_predict mean_eval s x b))"
  by (simp add: mi_predict_def Let_def)

subsection \<open>The text that \<open>save_data\<close> writes\<close>










subsection \<open>A fit that fails\<close>












subsection \<open>An ensemble that has never learned\<close>

lemma fresh_regressors:
  "m_gp_models (GPModel P G) = replicate (model_pred_dim P) (gp_new G (model_input_dim P) 1)"
  by (simp add: GPModel_def init_def map_replicate_const)

subsection \<open>Transitions that \<open>learn\<close> cannot use\<close>

lemma targets_agree_map:
  assumes "ts \<noteq> []"
  shows "(\<forall>t \<in> set ts. length (target_of t) = length (target_of (hd ts)))
         \<longleftrightarrow> (\<forall>r \<in> set (map target_of ts). length r = length (hd (map target_of ts)))"
  unfolding hd_map [OF assms] by simp

lemma target_matrix_map:
  assumes "ts \<noteq> []"
  shows "target_matrix ts = \<lparr>mrows = map target_of ts, mcols = length (hd (map target_of ts))\<rparr>"
  unfolding hd_map [OF assms] target_matrix_def ..

lemma assemble_cong:
  assumes "map sample_of ts = map sample_of ts'" and "map target_of ts = map target_of ts'"
  shows "assemble ts = assemble ts'"
proof (cases "ts = []")
  case True
  with assms(1) have "ts' = []" by simp
  with True show ?thesis by simp
next
  case False
  from assms(1) have "length ts = length ts'"
    by (rule map_eq_imp_length_eq)
  with False have ne': "ts' \<noteq> []" by auto
  have tm: "target_matrix ts = target_matrix ts'"
    unfolding target_matrix_map [OF False] target_matrix_map [OF ne'] assms(2) ..
  show ?thesis
  proof (cases "\<forall>t \<in> set ts. length (target_of t) = length (target_of (hd ts))")
    case True
    then have "\<forall>t \<in> set ts'. length (target_of t) = length (target_of (hd ts'))"
      unfolding targets_agree_map [OF False] targets_agree_map [OF ne'] assms(2) .
    from assemble_ok [OF False True] assemble_ok [OF ne' this] show ?thesis
      by (simp only: assms(1) tm)
  next
    case no: False
    then have no': "\<not> (\<forall>t \<in> set ts'. length (target_of t) = length (target_of (hd ts')))"
      unfolding targets_agree_map [OF False] targets_agree_map [OF ne'] assms(2) .
    from no have "\<exists>t \<in> set ts. length (target_of t) \<noteq> length (target_of (hd ts))"
      by blast
    moreover from no' have "\<exists>t \<in> set ts'. length (target_of t) \<noteq> length (target_of (hd ts'))"
      by blast
    ultimately show ?thesis
      using assemble_fail [OF False] assemble_fail [OF ne'] by (simp only:)
  qed
qed

lemma learn_sample_mismatch:
  assumes "ts \<noteq> []"
      and "\<forall>t \<in> set ts. length (target_of t) = length (target_of (hd ts))"
      and "\<exists>t \<in> set ts. length (sample_of t) \<noteq> length (sample_of (hd ts))"
  shows "learn P G U ts ol s = Inl (EigenAssertion, s\<lparr>m_observations := target_matrix ts\<rparr>)"
proof -
  from assms(1) have ne: "map sample_of ts \<noteq> []" by simp
  from assms(1,3) have "\<exists>x \<in> set (map sample_of ts). length x \<noteq> length (hd (map sample_of ts))"
    by (simp add: hd_map)
  from to_matrix_fail [OF ne this]
  have "learn_diagnostics P U (map sample_of ts) (s\<lparr>m_observations := target_matrix ts\<rparr>)
          = Inl (EigenAssertion, s\<lparr>m_observations := target_matrix ts\<rparr>)"
    by (simp add: learn_diagnostics_def)
  then show ?thesis
    unfolding learn_def assemble_ok [OF assms(1,2)] by simp
qed

text \<open>
  C5, as the code has it. \<open>learn\<close> has no test of its input. Without a transition
  it stops at the read of the first one, and with a target that has not the length of
  the first target it stops in the assembly loop; the members are then unchanged. With
  a sample (state followed by action) that has not the length of the first sample it
  stops when the sample matrix is built, for either value of \<open>only_limits\<close> and so
  before any fit, and the cached targets are already the new ones. States and actions
  are not compared by themselves: transitions with the same samples and the same
  targets give the same call.
\<close>

theorem learn_input_not_validated:
  "learn P G U [] ol s = Inl (StdVectorOutOfRange, s)
   \<and> (ts \<noteq> [] \<and> (\<exists>t \<in> set ts. length (target_of t) \<noteq> length (target_of (hd ts)))
        \<longrightarrow> learn P G U ts ol s = Inl (EigenAssertion, s))
   \<and> (ts \<noteq> [] \<and> (\<forall>t \<in> set ts. length (target_of t) = length (target_of (hd ts)))
        \<and> (\<exists>t \<in> set ts. length (sample_of t) \<noteq> length (sample_of (hd ts)))
        \<longrightarrow> learn P G U ts ol s = Inl (EigenAssertion, s\<lparr>m_observations := target_matrix ts\<rparr>))
   \<and> (map sample_of ts = map sample_of ts' \<and> map target_of ts = map target_of ts'
        \<longrightarrow> learn P G U ts ol s = learn P G U ts' ol s)"
proof (intro conjI impI)
  show "learn P G U [] ol s = Inl (StdVectorOutOfRange, s)"
    by (simp add: learn_def assemble_def)
next
  assume "ts \<noteq> [] \<and> (\<exists>t \<in> set ts. length (target_of t) \<noteq> length (target_of (hd ts)))"
  then have "assemble ts = Inl EigenAssertion"
    by (simp add: assemble_fail)
  then show "learn P G U ts ol s = Inl (EigenAssertion, s)"
    by (simp add: learn_def)
next
  assume "ts \<noteq> [] \<and> (\<forall>t \<in> set ts. length (target_of t) = length (target_of (hd ts)))
        \<and> (\<exists>t \<in> set ts. length (sample_of t) \<noteq> length (sample_of (hd ts)))"
  then show "learn P G U ts ol s = Inl (EigenAssertion, s\<lparr>m_observations := target_matrix ts\<rparr>)"
    by (intro learn_sample_mismatch) blast+
next
  assume "map sample_of ts = map sample_of ts' \<and> map target_of ts = map target_of ts'"
  then have "assemble ts = assemble ts'"
    by (intro assemble_cong) blast+
  then show "learn P G U ts ol s = learn P G U ts' ol s"
    by (simp add: learn_def)
qed

theorem learn_input_not_validated_witness:
  "learn table_params table_gp table_utils ragged_target2 False line3_fitted
     = Inl (EigenAssertion, line3_fitted)
   \<and> learn table_params table_gp table_utils ragged_state2 False line3_fitted
       = Inl (EigenAssertion, line3_fitted\<lparr>m_observations := target_matrix ragged_state2\<rparr>)
   \<and> learn wide_params table_gp table_utils shifted2 False (GPModel wide_params table_gp)
       = learn wide_params table_gp table_utils straight2 False (GPModel wide_params table_gp)"
proof -
  have h1: "ragged_target2 \<noteq> []
            \<and> (\<exists>t \<in> set ragged_target2. length (target_of t) \<noteq> length (target_of (hd ragged_target2)))"
    by (simp add: ragged_target2_def target_of_def)
  have h2: "ragged_state2 \<noteq> []
            \<and> (\<forall>t \<in> set ragged_state2. length (target_of t) = length (target_of (hd ragged_state2)))
            \<and> (\<exists>t \<in> set ragged_state2. length (sample_of t) \<noteq> length (sample_of (hd ragged_state2)))"
    by (simp add: ragged_state2_def target_of_def sample_of_def)
  have h3: "map sample_of shifted2 = map sample_of straight2
            \<and> map target_of shifted2 = map target_of straight2"
    by (simp add: shifted2_def straight2_def target_of_def sample_of_def)
  from learn_input_not_validated
         [of table_params table_gp table_utils False line3_fitted ragged_target2] h1
  have a: "learn table_params table_gp table_utils ragged_target2 False line3_fitted
             = Inl (EigenAssertion, line3_fitted)"
    by blast
  from learn_input_not_validated
         [of table_params table_gp table_utils False line3_fitted ragged_state2] h2
  have b: "learn table_params table_gp table_utils ragged_state2 False line3_fitted
             = Inl (EigenAssertion, line3_fitted\<lparr>m_observations := target_matrix ragged_state2\<rparr>)"
    by blast
  from learn_input_not_validated
         [of wide_params table_gp table_utils False "GPModel wide_params table_gp" shifted2 straight2] h3
  have c: "learn wide_params table_gp table_utils shifted2 False (GPModel wide_params table_gp)
             = learn wide_params table_gp table_utils straight2 False (GPModel wide_params table_gp)"
    by blast
  from a b c show ?thesis by blast
qed

text \<open>
  Against C5 as stated: in \<open>shifted2\<close> the second state and the second action have
  not the lengths of the first ones, and \<open>learn\<close> fits the ensemble all the same; on
  \<open>ragged_state2\<close> the call stops, and the cached targets of the fitted ensemble have
  been replaced.
\<close>

theorem learn_accepts_shifted_lengths:
  "length (fst (shifted2 ! 1)) \<noteq> length (fst (shifted2 ! 0))
   \<and> length (fst (snd (shifted2 ! 1))) \<noteq> length (fst (snd (shifted2 ! 0)))
   \<and> learn wide_params table_gp table_utils shifted2 False (GPModel wide_params table_gp)
       = Inr shifted2_fitted
   \<and> learn table_params table_gp table_utils ragged_state2 False line3_fitted
       = Inl (EigenAssertion, line3_fitted\<lparr>m_observations := \<lparr>mrows = [[0], [1]], mcols = 1\<rparr>\<rparr>)
   \<and> line3_fitted\<lparr>m_observations := \<lparr>mrows = [[0], [1]], mcols = 1\<rparr>\<rparr> \<noteq> line3_fitted"
  by code_simp

subsection \<open>\<open>save_data\<close> after a completed \<open>learn\<close>\<close>






subsection \<open>Calls on the example ensembles\<close>

lemma learn_signed3:
  "learn table_params table_gp table_utils signed3 True line3_fitted = Inr signed3_limited"
  by code_simp



lemma learn_half1:
  "learn two_params picky_gp table_utils half1 False (GPModel two_params picky_gp)
     = Inl (FitFailure 1, half1_failed)"
  by code_simp

lemma consistent_signed3: "consistent table_params signed3"
  by (simp add: consistent_def signed3_def table_params_def target_of_def sample_of_def)

lemma consistent_short2: "consistent table_params short2"
  by (simp add: consistent_def short2_def table_params_def target_of_def sample_of_def)


subsection \<open>The diagnostics, written out\<close>

lemma first_sample_length:
  assumes "consistent P ts"
  shows "length (sample_of (hd ts)) = model_input_dim P + action_dim P"
proof -
  from assms have "ts \<noteq> []"
    and "\<forall>t \<in> set ts. length (sample_of t) = model_input_dim P + action_dim P"
    by (simp_all add: consistent_def list_all_iff)
  then show ?thesis by (cases ts) auto
qed

lemma learn_stops_on_unusable:
  assumes "ts = [] \<or> (\<exists>t \<in> set ts. length (target_of t) \<noteq> length (target_of (hd ts)))
           \<or> (\<exists>t \<in> set ts. length (sample_of t) \<noteq> length (sample_of (hd ts)))"
  shows "\<exists>f s'. learn P G U ts ol s = Inl (f, s')
           \<and> m_means s' = m_means s \<and> m_sigmas s' = m_sigmas s \<and> m_limits s' = m_limits s
           \<and> m_gp_models s' = m_gp_models s"
proof (cases "ts = []")
  case True
  then have "learn P G U ts ol s = Inl (StdVectorOutOfRange, s)"
    by (simp add: learn_def assemble_def)
  then show ?thesis by simp
next
  case ne: False
  show ?thesis
  proof (cases "\<exists>t \<in> set ts. length (target_of t) \<noteq> length (target_of (hd ts))")
    case True
    from assemble_fail [OF ne True] have "learn P G U ts ol s = Inl (EigenAssertion, s)"
      by (simp add: learn_def)
    then show ?thesis by simp
  next
    case False
    then have ta: "\<forall>t \<in> set ts. length (target_of t) = length (target_of (hd ts))"
      by blast
    from assms ne False
    have "\<exists>t \<in> set ts. length (sample_of t) \<noteq> length (sample_of (hd ts))"
      by blast
    from learn_sample_mismatch [OF ne ta this]
    have "learn P G U ts ol s = Inl (EigenAssertion, s\<lparr>m_observations := target_matrix ts\<rparr>)" .
    then show ?thesis by simp
  qed
qed

text \<open>
  C6, as the code has it. A call of \<open>learn\<close> with \<open>only_limits\<close> set never touches
  the regressors, whatever the transitions are and however the call ends. On consistent
  transitions it returns, and it leaves as means the sums of the sample columns divided
  by the number of transitions, as deviations what \<open>colwise_sig\<close> computes of the
  sample matrix, and as limits the greater of the 5th and the 95th percentile of the
  absolute values of the samples. Without a transition, or with targets or samples of
  different lengths, the call stops and the means, deviations and limits stay as they
  were.
\<close>

theorem learn_only_limits_refreshes_diagnostics:
  "(\<forall>f s'. learn P G U ts True s = Inl (f, s') \<or> learn P G U ts True s = Inr s'
           \<longrightarrow> m_gp_models s' = m_gp_models s)
   \<and> (consistent P ts
       \<and> percentile_sized U \<lparr>mrows = map (\<lambda>t. map abs (sample_of t)) ts,
                              mcols = model_input_dim P + action_dim P\<rparr> \<longrightarrow>
        (\<exists>s'. learn P G U ts True s = Inr s'
            \<and> m_gp_models s' = m_gp_models s
            \<and> m_means s' = map (\<lambda>j. sum_list (map (\<lambda>t. sample_of t ! j) ts) / real (length ts))
                             [0..<model_input_dim P + action_dim P]
            \<and> m_sigmas s' = colwise_sig U \<lparr>mrows = map sample_of ts,
                                            mcols = model_input_dim P + action_dim P\<rparr>
            \<and> limits s' = map (\<lambda>(x, y). max x y)
                            (zip (percentile U \<lparr>mrows = map (\<lambda>t. map abs (sample_of t)) ts,
                                                mcols = model_input_dim P + action_dim P\<rparr> 5)
                                 (percentile U \<lparr>mrows = map (\<lambda>t. map abs (sample_of t)) ts,
                                                mcols = model_input_dim P + action_dim P\<rparr> 95))))
   \<and> (ts = [] \<or> (\<exists>t \<in> set ts. length (target_of t) \<noteq> length (target_of (hd ts)))
         \<or> (\<exists>t \<in> set ts. length (sample_of t) \<noteq> length (sample_of (hd ts))) \<longrightarrow>
        (\<exists>f s'. learn P G U ts True s = Inl (f, s')
            \<and> m_means s' = m_means s \<and> m_sigmas s' = m_sigmas s \<and> m_limits s' = m_limits s))"
proof (intro conjI allI impI)
  fix f s'
  assume "learn P G U ts True s = Inl (f, s') \<or> learn P G U ts True s = Inr s'"
  then show "m_gp_models s' = m_gp_models s"
    by (rule learn_only_limits_regressors)
next
  let ?A = "\<lparr>mrows = map (\<lambda>t. map abs (sample_of t)) ts, mcols = model_input_dim P + action_dim P\<rparr>"
  assume a: "consistent P ts \<and> percentile_sized U ?A"
  then have c: "consistent P ts" by blast
  note sm = sample_matrix_consistent [OF c]
  have ab: "mat_abs (sample_matrix ts) = ?A"
    unfolding sm by (simp add: mat_abs_def)
  have mn: "colwise_mean (sample_matrix ts)
              = map (\<lambda>j. sum_list (map (\<lambda>t. sample_of t ! j) ts) / real (length ts))
                  [0..<model_input_dim P + action_dim P]"
    unfolding sm by (simp add: colwise_mean_def comp_def)
  from a have "percentile_sized U (mat_abs (sample_matrix ts))"
    unfolding ab by blast
  from learn_consistent [OF c this, of G True s]
  have l: "learn P G U ts True s = Inr (diagnosed U ts s)"
    by simp
  have "m_gp_models (diagnosed U ts s) = m_gp_models s"
    and "m_means (diagnosed U ts s)
           = map (\<lambda>j. sum_list (map (\<lambda>t. sample_of t ! j) ts) / real (length ts))
               [0..<model_input_dim P + action_dim P]"
    and "m_sigmas (diagnosed U ts s)
           = colwise_sig U \<lparr>mrows = map sample_of ts, mcols = model_input_dim P + action_dim P\<rparr>"
    and "limits (diagnosed U ts s)
           = map (\<lambda>(x, y). max x y) (zip (percentile U ?A 5) (percentile U ?A 95))"
    unfolding limits_def diagnosed_def ab mn
    by (simp_all add: sm)
  with l show "\<exists>s'. learn P G U ts True s = Inr s'
            \<and> m_gp_models s' = m_gp_models s
            \<and> m_means s' = map (\<lambda>j. sum_list (map (\<lambda>t. sample_of t ! j) ts) / real (length ts))
                             [0..<model_input_dim P + action_dim P]
            \<and> m_sigmas s' = colwise_sig U \<lparr>mrows = map sample_of ts,
                                            mcols = model_input_dim P + action_dim P\<rparr>
            \<and> limits s' = map (\<lambda>(x, y). max x y) (zip (percentile U ?A 5) (percentile U ?A 95))"
    by blast
next
  assume "ts = [] \<or> (\<exists>t \<in> set ts. length (target_of t) \<noteq> length (target_of (hd ts)))
         \<or> (\<exists>t \<in> set ts. length (sample_of t) \<noteq> length (sample_of (hd ts)))"
  from learn_stops_on_unusable [OF this, of P G U True s]
  show "\<exists>f s'. learn P G U ts True s = Inl (f, s')
            \<and> m_means s' = m_means s \<and> m_sigmas s' = m_sigmas s \<and> m_limits s' = m_limits s"
    by blast
qed

theorem learn_only_limits_refreshes_diagnostics_witness:
  "learn table_params table_gp table_utils line3 False (GPModel table_params table_gp)
     = Inr line3_fitted
   \<and> consistent table_params signed3
   \<and> learn table_params table_gp table_utils signed3 True line3_fitted = Inr signed3_limited
   \<and> m_gp_models signed3_limited = [([[0, 0], [1, 0], [2, 0]], [[0], [1], [2]])]
   \<and> m_gp_models signed3_limited = m_gp_models line3_fitted
   \<and> m_means signed3_limited = [-1, -2]
   \<and> m_sigmas signed3_limited = [0, 0]
   \<and> limits signed3_limited = [5, 5]
   \<and> m_means line3_fitted = [1, 0]
   \<and> limits line3_fitted = [2, 0]
   \<and> (\<exists>f s'. learn table_params table_gp table_utils ragged_state2 True line3_fitted = Inl (f, s')
          \<and> m_means s' = [1, 0] \<and> m_limits s' = [2, 0])"
proof -
  let ?A = "\<lparr>mrows = map (\<lambda>t. map abs (sample_of t)) signed3,
             mcols = model_input_dim table_params + action_dim table_params\<rparr>"
  note inst1 = learn_only_limits_refreshes_diagnostics
               [of table_params table_gp table_utils signed3 line3_fitted]
  note inst2 = learn_only_limits_refreshes_diagnostics
               [of table_params table_gp table_utils ragged_state2 line3_fitted]
  have h: "consistent table_params signed3 \<and> percentile_sized table_utils ?A"
    by (simp add: consistent_signed3 percentile_sized_table)
  from inst1 h obtain s' where
    l: "learn table_params table_gp table_utils signed3 True line3_fitted = Inr s'"
    and g: "m_gp_models s' = m_gp_models line3_fitted"
    and m: "m_means s' = map (\<lambda>j. sum_list (map (\<lambda>t. sample_of t ! j) signed3) / real (length signed3))
                          [0..<model_input_dim table_params + action_dim table_params]"
    and sg: "m_sigmas s' = colwise_sig table_utils
                             \<lparr>mrows = map sample_of signed3,
                              mcols = model_input_dim table_params + action_dim table_params\<rparr>"
    and lm: "limits s' = map (\<lambda>(x, y). max x y)
                           (zip (percentile table_utils ?A 5) (percentile table_utils ?A 95))"
    by blast
  from l have s': "s' = signed3_limited"
    by (simp add: learn_signed3)
  have mv: "map (\<lambda>j. sum_list (map (\<lambda>t. sample_of t ! j) signed3) / real (length signed3))
              [0..<model_input_dim table_params + action_dim table_params] = [-1, -2]"
    by code_simp
  have sv: "colwise_sig table_utils
              \<lparr>mrows = map sample_of signed3,
               mcols = model_input_dim table_params + action_dim table_params\<rparr> = [0, 0]"
    by code_simp
  have lv: "map (\<lambda>(x, y). max x y)
              (zip (percentile table_utils ?A 5) (percentile table_utils ?A 95)) = [5, 5]"
    by code_simp
  have g0: "m_gp_models line3_fitted = [([[0, 0], [1, 0], [2, 0]], [[0], [1], [2]])]"
    and m0: "m_means line3_fitted = [1, 0]" and l0: "limits line3_fitted = [2, 0]"
    and ml0: "m_limits line3_fitted = [2, 0]"
    by (simp_all add: line3_fitted_def limits_def)
  have h2: "ragged_state2 = [] \<or> (\<exists>t \<in> set ragged_state2. length (target_of t) \<noteq> length (target_of (hd ragged_state2)))
            \<or> (\<exists>t \<in> set ragged_state2. length (sample_of t) \<noteq> length (sample_of (hd ragged_state2)))"
    by (simp add: ragged_state2_def sample_of_def)
  from inst2 h2 obtain f t' where
    "learn table_params table_gp table_utils ragged_state2 True line3_fitted = Inl (f, t')"
    and "m_means t' = m_means line3_fitted" and "m_limits t' = m_limits line3_fitted"
    by blast
  then have r: "\<exists>f s'. learn table_params table_gp table_utils ragged_state2 True line3_fitted = Inl (f, s')
          \<and> m_means s' = [1, 0] \<and> m_limits s' = [2, 0]"
    using m0 ml0 by auto
  from g m sg lm show ?thesis
    unfolding s' mv sv lv g0
    using learn_line3 consistent_signed3 learn_signed3 m0 l0 r g0 by simp
qed

text \<open>
  Against C6 as stated: the claim is made for every sequence of transitions, but with
  no transition, and with samples of two lengths, the call on the fitted ensemble
  \<open>line3_fitted\<close> does not return, and the means and limits it leaves are the old ones.
\<close>

theorem learn_only_limits_stops_on_unusable:
  "learn table_params table_gp table_utils [] True line3_fitted
     = Inl (StdVectorOutOfRange, line3_fitted)
   \<and> learn table_params table_gp table_utils ragged_state2 True line3_fitted
       = Inl (EigenAssertion, line3_fitted\<lparr>m_observations := \<lparr>mrows = [[0], [1]], mcols = 1\<rparr>\<rparr>)
   \<and> m_means (line3_fitted\<lparr>m_observations := \<lparr>mrows = [[0], [1]], mcols = 1\<rparr>\<rparr>) = [1, 0]
   \<and> m_limits (line3_fitted\<lparr>m_observations := \<lparr>mrows = [[0], [1]], mcols = 1\<rparr>\<rparr>) = [2, 0]"
  by code_simp

text \<open>
  C7. On consistent transitions, whenever \<open>learn\<close> returns, the limits it has stored
  (and the accessor \<open>limits\<close> returns) are, entry by entry, the greater of the 5th and
  the 95th percentile of the matrix of the absolute values of the samples, and there is
  one entry per column of the sample matrix; with \<open>only_limits\<close> the call does return.
  \<open>percentile\<close> itself is the helper declared outside the file.
\<close>

theorem limits_max_of_percentiles:
  assumes "consistent P ts"
      and "percentile_sized U \<lparr>mrows = map (\<lambda>t. map abs (sample_of t)) ts,
                               mcols = length (sample_of (hd ts))\<rparr>"
  shows "(\<exists>s'. learn P G U ts True s = Inr s')
         \<and> (\<forall>ol s'. learn P G U ts ol s = Inr s' \<longrightarrow>
               limits s' = map (\<lambda>(x, y). max x y)
                             (zip (percentile U \<lparr>mrows = map (\<lambda>t. map abs (sample_of t)) ts,
                                                 mcols = length (sample_of (hd ts))\<rparr> 5)
                                  (percentile U \<lparr>mrows = map (\<lambda>t. map abs (sample_of t)) ts,
                                                 mcols = length (sample_of (hd ts))\<rparr> 95))
               \<and> length (limits s') = length (sample_of (hd ts)))"
proof (intro conjI allI impI)
  let ?A = "\<lparr>mrows = map (\<lambda>t. map abs (sample_of t)) ts, mcols = length (sample_of (hd ts))\<rparr>"
  have ab: "mat_abs (sample_matrix ts) = ?A"
    unfolding sample_matrix_consistent [OF assms(1)] first_sample_length [OF assms(1)]
    by (simp add: mat_abs_def)
  from assms(2) have ps: "percentile_sized U (mat_abs (sample_matrix ts))"
    unfolding ab .
  note lc = learn_consistent [OF assms(1) ps]
  show "\<exists>s'. learn P G U ts True s = Inr s'"
    by (simp add: lc)
  fix ol s'
  assume r: "learn P G U ts ol s = Inr s'"
  have "m_limits s' = m_limits (diagnosed U ts s)"
  proof (cases ol)
    case True
    with r show ?thesis by (simp add: lc)
  next
    case False
    with r have "learn_fit P G (map sample_of ts) (target_matrix ts) (diagnosed U ts s) = Inr s'"
      by (simp add: lc)
    then have "learn_fit P G (map sample_of ts) (target_matrix ts) (diagnosed U ts s) = Inl (undefined, s')
               \<or> learn_fit P G (map sample_of ts) (target_matrix ts) (diagnosed U ts s) = Inr s'"
      by simp
    from learn_fit_frame [OF this] show ?thesis by simp
  qed
  then show lim: "limits s' = map (\<lambda>(x, y). max x y) (zip (percentile U ?A 5) (percentile U ?A 95))"
    unfolding limits_def diagnosed_def ab by simp
  from assms(2) show "length (limits s') = length (sample_of (hd ts))"
    unfolding lim by (simp add: percentile_sized_def)
qed

theorem limits_max_of_percentiles_witness:
  "consistent table_params signed3
   \<and> learn table_params table_gp table_utils signed3 True line3_fitted = Inr signed3_limited
   \<and> limits signed3_limited
       = map (\<lambda>(x, y). max x y)
           (zip (percentile table_utils \<lparr>mrows = map (\<lambda>t. map abs (sample_of t)) signed3,
                                        mcols = length (sample_of (hd signed3))\<rparr> 5)
                (percentile table_utils \<lparr>mrows = map (\<lambda>t. map abs (sample_of t)) signed3,
                                        mcols = length (sample_of (hd signed3))\<rparr> 95))
   \<and> length (limits signed3_limited) = length (sample_of (hd signed3))
   \<and> limits signed3_limited = [5, 5]
   \<and> map (\<lambda>(x, y). max x y)
         (zip (percentile table_utils \<lparr>mrows = map sample_of signed3,
                                      mcols = length (sample_of (hd signed3))\<rparr> 5)
              (percentile table_utils \<lparr>mrows = map sample_of signed3,
                                      mcols = length (sample_of (hd signed3))\<rparr> 95))
       = [1, 1]"
proof -
  have h1: "consistent table_params signed3"
    by (rule consistent_signed3)
  have h2: "percentile_sized table_utils \<lparr>mrows = map (\<lambda>t. map abs (sample_of t)) signed3,
                                          mcols = length (sample_of (hd signed3))\<rparr>"
    by (rule percentile_sized_table)
  have v: "limits signed3_limited = [5, 5]"
    by (simp add: limits_def signed3_limited_def)
  have w: "map (\<lambda>(x, y). max x y)
             (zip (percentile table_utils \<lparr>mrows = map sample_of signed3,
                                          mcols = length (sample_of (hd signed3))\<rparr> 5)
                  (percentile table_utils \<lparr>mrows = map sample_of signed3,
                                          mcols = length (sample_of (hd signed3))\<rparr> 95))
           = [1, 1]"
    by code_simp
  from limits_max_of_percentiles [OF h1 h2, of table_gp line3_fitted]
       h1 learn_signed3 v w
  show ?thesis by blast
qed

subsection \<open>\<open>save_data\<close> when target rows are missing\<close>








subsection \<open>The cached targets after a call with \<open>only_limits\<close>\<close>





subsection \<open>Queries on any ensemble\<close>

lemma predictm_answers:
  assumes "\<forall>g \<in> set (m_gp_models s). fst (gp_query G g x) \<noteq> []"
  shows "predictm G s x = Inr (map (\<lambda>g. fst (gp_query G g x) ! 0) (m_gp_models s),
                               map (\<lambda>g. snd (gp_query G g x)) (m_gp_models s))"
  using assms
  by (simp add: predictm_def Let_def list_all_iff case_prod_beta comp_def)

lemma predict_answers:
  assumes "m_gp_models s \<noteq> []"
      and "\<forall>g \<in> set (m_gp_models s). fst (gp_query G g x) \<noteq> []"
  shows "predict G s x = Inr (map (\<lambda>g. fst (gp_query G g x) ! 0) (m_gp_models s),
                              sum_list (map (\<lambda>g. snd (gp_query G g x)) (m_gp_models s))
                                / real (length (m_gp_models s)))"
  using assms(1) by (simp add: predict_def predictm_answers [OF assms(2)] vec_mean_def)

text \<open>
  C4, as the code has it. Neither \<open>predictm\<close>, \<open>predict\<close> nor \<open>save_data\<close> tests
  whether \<open>learn\<close> has run. On every ensemble, whatever calls came before,
  \<open>predictm\<close> returns what the regressors it holds answer (when each mean vector
  is not empty), \<open>predict\<close> the same means with the average of the variances (when
  there is a regressor), and \<open>save_data\<close> writes an empty file when the first
  regressor holds no sample. On a newly constructed ensemble with at least one output
  dimension, these are the answers of the newly constructed regressors.
\<close>

theorem unfitted_ensemble_answers:
  "((\<forall>g \<in> set (m_gp_models s). fst (gp_query G g x) \<noteq> []) \<longrightarrow>
      predictm G s x = Inr (map (\<lambda>g. fst (gp_query G g x) ! 0) (m_gp_models s),
                            map (\<lambda>g. snd (gp_query G g x)) (m_gp_models s)))
   \<and> (m_gp_models s \<noteq> [] \<and> (\<forall>g \<in> set (m_gp_models s). fst (gp_query G g x) \<noteq> []) \<longrightarrow>
      predict G s x = Inr (map (\<lambda>g. fst (gp_query G g x) ! 0) (m_gp_models s),
                           sum_list (map (\<lambda>g. snd (gp_query G g x)) (m_gp_models s))
                             / real (length (m_gp_models s))))
   \<and> (m_gp_models s = g0 # gs \<and> gp_samples G g0 = [] \<longrightarrow> save_data G fmt s = Inr [])
   \<and> (0 < model_pred_dim P
       \<and> fst (gp_query G (gp_new G (model_input_dim P) 1) x) \<noteq> []
       \<and> gp_samples G (gp_new G (model_input_dim P) 1) = [] \<longrightarrow>
      predictm G (GPModel P G) x =
        Inr (replicate (model_pred_dim P) (fst (gp_query G (gp_new G (model_input_dim P) 1) x) ! 0),
             replicate (model_pred_dim P) (snd (gp_query G (gp_new G (model_input_dim P) 1) x)))
      \<and> predict G (GPModel P G) x =
          Inr (replicate (model_pred_dim P) (fst (gp_query G (gp_new G (model_input_dim P) 1) x) ! 0),
               snd (gp_query G (gp_new G (model_input_dim P) 1) x))
      \<and> save_data G fmt (GPModel P G) = Inr [])"
proof (intro conjI impI)
  assume "\<forall>g \<in> set (m_gp_models s). fst (gp_query G g x) \<noteq> []"
  then show "predictm G s x = Inr (map (\<lambda>g. fst (gp_query G g x) ! 0) (m_gp_models s),
                            map (\<lambda>g. snd (gp_query G g x)) (m_gp_models s))"
    by (rule predictm_answers)
next
  assume "m_gp_models s \<noteq> [] \<and> (\<forall>g \<in> set (m_gp_models s). fst (gp_query G g x) \<noteq> [])"
  then show "predict G s x = Inr (map (\<lambda>g. fst (gp_query G g x) ! 0) (m_gp_models s),
                           sum_list (map (\<lambda>g. snd (gp_query G g x)) (m_gp_models s))
                             / real (length (m_gp_models s)))"
    by (intro predict_answers) blast+
next
  assume "m_gp_models s = g0 # gs \<and> gp_samples G g0 = []"
  then show "save_data G fmt s = Inr []"
    by (simp add: save_data_def)
next
  let ?g = "gp_new G (model_input_dim P) 1" and ?n = "model_pred_dim P"
  assume a: "0 < ?n \<and> fst (gp_query G ?g x) \<noteq> [] \<and> gp_samples G ?g = []"
  have fr: "m_gp_models (GPModel P G) = replicate ?n ?g"
    by (rule fresh_regressors)
  from a have q: "\<forall>g \<in> set (m_gp_models (GPModel P G)). fst (gp_query G g x) \<noteq> []"
    unfolding fr by simp
  from a have ne: "m_gp_models (GPModel P G) \<noteq> []"
    unfolding fr by simp
  from predictm_answers [OF q]
  show "predictm G (GPModel P G) x =
          Inr (replicate ?n (fst (gp_query G ?g x) ! 0), replicate ?n (snd (gp_query G ?g x)))"
    unfolding fr by (simp add: map_replicate_const)
  from predict_answers [OF ne q] a
  show "predict G (GPModel P G) x = Inr (replicate ?n (fst (gp_query G ?g x) ! 0), snd (gp_query G ?g x))"
    unfolding fr by (simp add: map_replicate_const sum_list_replicate_real)
  from a obtain m where m: "?n = Suc m"
    by (cases ?n) auto
  have "m_gp_models (GPModel P G) = ?g # replicate m ?g"
    unfolding fr m by simp
  with a show "save_data G fmt (GPModel P G) = Inr []"
    by (simp add: save_data_def)
qed

theorem unfitted_ensemble_answers_witness:
  "predictm table_gp (GPModel table_params table_gp) [1, 0] = Inr ([0], [1])
   \<and> predict table_gp (GPModel table_params table_gp) [1, 0] = Inr ([0], 1)
   \<and> save_data table_gp digit_fmt (GPModel table_params table_gp) = Inr []
   \<and> learn two_params picky_gp table_utils half1 False (GPModel two_params picky_gp)
       = Inl (FitFailure 1, half1_failed)
   \<and> predictm picky_gp half1_failed [1, 0] = Inr ([1, 0], [0, 1])
   \<and> predict picky_gp half1_failed [1, 0] = Inr ([1, 0], 1 / 2)"
proof -
  let ?f = "GPModel table_params table_gp"
  have h: "0 < model_pred_dim table_params
           \<and> fst (gp_query table_gp (gp_new table_gp (model_input_dim table_params) 1) [1, 0]) \<noteq> []
           \<and> gp_samples table_gp (gp_new table_gp (model_input_dim table_params) 1) = []"
    by (simp add: table_params_def table_gp_def)
  from unfitted_ensemble_answers [of _ table_gp "[1, 0]" _ _ digit_fmt table_params] h
  have f: "predictm table_gp ?f [1, 0] =
        Inr (replicate (model_pred_dim table_params)
               (fst (gp_query table_gp (gp_new table_gp (model_input_dim table_params) 1) [1, 0]) ! 0),
             replicate (model_pred_dim table_params)
               (snd (gp_query table_gp (gp_new table_gp (model_input_dim table_params) 1) [1, 0])))
      \<and> predict table_gp ?f [1, 0] =
          Inr (replicate (model_pred_dim table_params)
                 (fst (gp_query table_gp (gp_new table_gp (model_input_dim table_params) 1) [1, 0]) ! 0),
               snd (gp_query table_gp (gp_new table_gp (model_input_dim table_params) 1) [1, 0]))
      \<and> save_data table_gp digit_fmt ?f = Inr []"
    by blast
  have fv: "replicate (model_pred_dim table_params)
               (fst (gp_query table_gp (gp_new table_gp (model_input_dim table_params) 1) [1, 0]) ! 0) = [0]"
    and fw: "replicate (model_pred_dim table_params)
               (snd (gp_query table_gp (gp_new table_gp (model_input_dim table_params) 1) [1, 0])) = [1]"
    and fu: "snd (gp_query table_gp (gp_new table_gp (model_input_dim table_params) 1) [1, 0]) = 1"
    by (simp_all add: table_params_def table_gp_def)
  have k: "m_gp_models half1_failed \<noteq> []
           \<and> (\<forall>g \<in> set (m_gp_models half1_failed). fst (gp_query picky_gp g [1, 0]) \<noteq> [])"
    by (simp add: half1_failed_def picky_gp_def table_gp_def)
  from unfitted_ensemble_answers [of half1_failed picky_gp "[1, 0]"] k
  have p: "predictm picky_gp half1_failed [1, 0]
             = Inr (map (\<lambda>g. fst (gp_query picky_gp g [1, 0]) ! 0) (m_gp_models half1_failed),
                    map (\<lambda>g. snd (gp_query picky_gp g [1, 0])) (m_gp_models half1_failed))
           \<and> predict picky_gp half1_failed [1, 0]
               = Inr (map (\<lambda>g. fst (gp_query picky_gp g [1, 0]) ! 0) (m_gp_models half1_failed),
                      sum_list (map (\<lambda>g. snd (gp_query picky_gp g [1, 0])) (m_gp_models half1_failed))
                        / real (length (m_gp_models half1_failed)))"
    by blast
  have pv: "map (\<lambda>g. fst (gp_query picky_gp g [1, 0]) ! 0) (m_gp_models half1_failed) = [1, 0]"
    and pw: "map (\<lambda>g. snd (gp_query picky_gp g [1, 0])) (m_gp_models half1_failed) = [0, 1]"
    and pl: "real (length (m_gp_models half1_failed)) = 2"
    by (simp_all add: half1_failed_def picky_gp_def table_gp_def)
  from f p learn_half1 show ?thesis
    unfolding fv fw fu pv pw pl by (simp add: table_params_def)
qed

text \<open>
  Against C4 as stated: on an ensemble that has never learned, \<open>predict\<close> and
  \<open>predictm\<close> return a prediction and \<open>save_data\<close> returns after writing an empty
  file; none of them fails.
\<close>

theorem unfitted_ensemble_does_not_fail:
  "predict table_gp (GPModel table_params table_gp) [1, 0] = Inr ([0], 1)
   \<and> predictm table_gp (GPModel table_params table_gp) [1, 0] = Inr ([0], [1])
   \<and> save_data table_gp digit_fmt (GPModel table_params table_gp) = Inr []"
  by code_simp

end
